theory Spec2Isabelle
  imports Main
begin

section \<open>JavaScript values\<close>

text \<open>
  The access layer receives the request's user as an untyped runtime value
  (\<^verbatim>\<open>user as AuthUser\<close> is a cast, the per-collection helpers take \<^verbatim>\<open>user: any\<close>),
  and the tenant entries are typed \<^verbatim>\<open>unknown\<close>. Values are therefore modelled as JSON-like
  data. An object is the list of its own properties in insertion order. A number is
  an integer: the code only ever tests a number for truthiness.
\<close>

datatype jsval =
    JUndefined
  | JNull
  | JBool bool
  | JNum int
  | JStr string
  | JArr "jsval list"
  | JObj "(string \<times> jsval) list"

type_synonym jsobj = "(string \<times> jsval) list"

text \<open>The only exception the modelled code can raise.\<close>

datatype error = TypeError

text \<open>\<^verbatim>\<open>Boolean(v)\<close>, \<^verbatim>\<open>!v\<close> and \<^verbatim>\<open>.filter(Boolean)\<close> all test truthiness.\<close>

fun truthy :: "jsval \<Rightarrow> bool" where
  "truthy JUndefined = False"
| "truthy JNull = False"
| "truthy (JBool b) = b"
| "truthy (JNum n) = (n \<noteq> 0)"
| "truthy (JStr s) = (s \<noteq> [])"
| "truthy (JArr xs) = True"
| "truthy (JObj fs) = True"

text \<open>The values on which \<^verbatim>\<open>?.\<close> and \<^verbatim>\<open>??\<close> short-circuit.\<close>

fun nullish :: "jsval \<Rightarrow> bool" where
  "nullish JUndefined = True"
| "nullish JNull = True"
| "nullish v = False"

fun typeof :: "jsval \<Rightarrow> string" where
  "typeof JUndefined = ''undefined''"
| "typeof JNull = ''object''"
| "typeof (JBool b) = ''boolean''"
| "typeof (JNum n) = ''number''"
| "typeof (JStr s) = ''string''"
| "typeof (JArr xs) = ''object''"
| "typeof (JObj fs) = ''object''"

definition obj_get :: "jsobj \<Rightarrow> string \<Rightarrow> jsval" where
  "obj_get fs k = (case map_of fs k of None \<Rightarrow> JUndefined | Some v \<Rightarrow> v)"

text \<open>
  \<^verbatim>\<open>v?.k\<close>: undefined on a nullish receiver. The code reads only the keys
  \<^verbatim>\<open>roles\<close>, \<^verbatim>\<open>tenants\<close>, \<^verbatim>\<open>tenant\<close>, \<^verbatim>\<open>id\<close> and \<^verbatim>\<open>value\<close>; none of them is a
  built-in property of an array, a string, a number or a boolean, so the read
  yields undefined on every receiver that is not a plain object.
\<close>

fun opt_prop :: "jsval \<Rightarrow> string \<Rightarrow> jsval" where
  "opt_prop (JObj fs) k = obj_get fs k"
| "opt_prop v k = JUndefined"

text \<open>\<^verbatim>\<open>v.k\<close>: a plain property read raises on undefined and null.\<close>

definition get_prop :: "jsval \<Rightarrow> string \<Rightarrow> error + jsval" where
  "get_prop v k = (if nullish v then Inl TypeError else Inr (opt_prop v k))"

text \<open>\<^verbatim>\<open>k in v\<close>, used only after \<^verbatim>\<open>typeof v === 'object' && v !== null\<close>.\<close>

fun has_in :: "string \<Rightarrow> jsval \<Rightarrow> bool" where
  "has_in k (JObj fs) = (k \<in> fst ` set fs)"
| "has_in k v = False"

text \<open>\<^verbatim>\<open>a || b\<close>\<close>

definition js_or :: "jsval \<Rightarrow> jsval \<Rightarrow> jsval" where
  "js_or a b = (if truthy a then a else b)"

text \<open>\<^verbatim>\<open>String.prototype.includes\<close>: the needle occurs as a contiguous run.\<close>

fun str_includes :: "string \<Rightarrow> string \<Rightarrow> bool" where
  "str_includes [] n = (n = [])"
| "str_includes (c # cs) n = (take (length n) (c # cs) = n \<or> str_includes cs n)"

text \<open>
  \<^verbatim>\<open>recv.includes(s)\<close> for a string literal \<^verbatim>\<open>s\<close>, on a receiver that is not nullish.
  An array compares its elements with the string; a string searches for it; any other
  receiver has no callable \<^verbatim>\<open>includes\<close>, and the call raises.
\<close>

definition method_includes :: "jsval \<Rightarrow> string \<Rightarrow> error + bool" where
  "method_includes recv s =
     (case recv of
        JArr xs \<Rightarrow> Inr (JStr s \<in> set xs)
      | JStr t \<Rightarrow> Inr (str_includes t s)
      | _ \<Rightarrow> Inl TypeError)"

section \<open>Shared auth helpers (lib/auth)\<close>

text \<open>\<^verbatim>\<open>Boolean(user?.roles?.includes('super-admin'))\<close>\<close>

definition isSuperAdmin :: "jsval \<Rightarrow> error + bool" where
  "isSuperAdmin user =
     (let roles = opt_prop user ''roles''
      in if nullish roles then Inr False else method_includes roles ''super-admin'')"

text \<open>The callback of \<^verbatim>\<open>user.tenants.map\<close> in \<^verbatim>\<open>getTenantIds\<close>.\<close>

definition resolveTenant :: "jsval \<Rightarrow> jsval" where
  "resolveTenant tenant =
     (if typeof tenant = ''string'' then tenant
      else if typeof tenant = ''object'' \<and> tenant \<noteq> JNull \<and> has_in ''tenant'' tenant then
        (let ref = opt_prop tenant ''tenant''
         in if typeof ref = ''string'' then ref
            else if typeof ref = ''object'' \<and> ref \<noteq> JNull
              then js_or (opt_prop ref ''id'') (opt_prop ref ''value'')
            else js_or (opt_prop tenant ''id'') (opt_prop tenant ''value''))
      else js_or (opt_prop tenant ''id'') (opt_prop tenant ''value''))"

text \<open>
  \<^verbatim>\<open>if (!user?.tenants) return []\<close>, then \<^verbatim>\<open>user.tenants.map(...).filter(Boolean)\<close>.
  Only an array has \<^verbatim>\<open>map\<close>; on any other truthy value the call raises.
\<close>

definition getTenantIds :: "jsval \<Rightarrow> error + jsval list" where
  "getTenantIds user =
     (let tenants = opt_prop user ''tenants''
      in if \<not> truthy tenants then Inr []
         else (case tenants of
                 JArr ts \<Rightarrow> Inr (filter truthy (map resolveTenant ts))
               | _ \<Rightarrow> Inl TypeError))"

text \<open>The membership list of the resolver example.\<close>

definition example_memberships :: "jsval list" where
  "example_memberships =
     [JStr ''t1'',
      JObj [(''id'', JStr ''t2'')],
      JObj [(''value'', JStr ''t3'')],
      JObj [(''tenant'', JStr ''t4'')],
      JObj [(''tenant'', JObj [(''id'', JStr ''t5'')])],
      JObj [(''tenant'', JObj [(''value'', JStr ''t6'')])],
      JObj [],
      JObj [(''tenant'', JObj [])]]"

section \<open>Access results\<close>

text \<open>
  An access function returns a boolean or a query constraint. The constraint type
  \<^verbatim>\<open>Where\<close> belongs to the framework; the code builds three forms of it:
  \<^verbatim>\<open>{ f: { equals: v } }\<close>, \<^verbatim>\<open>{ f: { in: vs } }\<close> and \<^verbatim>\<open>{ or: cs }\<close>.
\<close>

datatype Where =
    WEquals string jsval
  | WIn string "jsval list"
  | WOr "Where list"

datatype access_result = ABool bool | AWhere Where

abbreviation GRANT_ALL :: access_result where
  "GRANT_ALL \<equiv> ABool True"

abbreviation DENY_ALL :: access_result where
  "DENY_ALL \<equiv> ABool False"

text \<open>Sequencing of calls that may raise: the first exception propagates.\<close>

definition and_then :: "error + 'a \<Rightarrow> ('a \<Rightarrow> error + 'b) \<Rightarrow> error + 'b" where
  "and_then m f = (case m of Inl e \<Rightarrow> Inl e | Inr v \<Rightarrow> f v)"

section \<open>Users collection (collections/Users.ts)\<close>

text \<open>
  \<^verbatim>\<open>tenantScopedAccess\<close>: the constraint list starts with the own-record constraint,
  the tenant constraint is pushed when the resolver returned something, and a list of
  length one is returned as its only element.
\<close>

definition tenantScopedAccess :: "jsval \<Rightarrow> error + access_result" where
  "tenantScopedAccess user =
     (if \<not> truthy user then Inr (ABool False)
      else and_then (isSuperAdmin user) (\<lambda>super.
        if super then Inr (ABool True)
        else and_then (getTenantIds user) (\<lambda>tenantIds.
          and_then (get_prop user ''id'') (\<lambda>uid.
            let constraints0 = [WEquals ''id'' uid];
                constraints =
                  (if length tenantIds > 0
                   then constraints0 @ [WIn ''tenants.tenant'' tenantIds]
                   else constraints0)
            in if length constraints = 1 then Inr (AWhere (constraints ! 0))
               else Inr (AWhere (WOr constraints))))))"

definition selfOrSuperAccess :: "jsval \<Rightarrow> error + access_result" where
  "selfOrSuperAccess user =
     (if \<not> truthy user then Inr (ABool False)
      else and_then (isSuperAdmin user) (\<lambda>super.
        if super then Inr (ABool True)
        else and_then (get_prop user ''id'') (\<lambda>uid.
          Inr (AWhere (WEquals ''id'' uid)))))"

definition Users_access_admin :: "jsval \<Rightarrow> error + access_result" where
  "Users_access_admin user = Inr (ABool (truthy user))"

text \<open>
  \<^verbatim>\<open>roles?.includes('tenant-admin') ?? false\<close>: the call returns a boolean, so the
  default applies only when \<^verbatim>\<open>roles\<close> is nullish.
\<close>

definition Users_access_create :: "jsval \<Rightarrow> error + access_result" where
  "Users_access_create user =
     (if \<not> truthy user then Inr (ABool False)
      else and_then (isSuperAdmin user) (\<lambda>super.
        if super then Inr (ABool True)
        else and_then (get_prop user ''roles'') (\<lambda>roles.
          if nullish roles then Inr (ABool False)
          else and_then (method_includes roles ''tenant-admin'') (\<lambda>b. Inr (ABool b)))))"

definition Users_access_read :: "jsval \<Rightarrow> error + access_result" where
  "Users_access_read = tenantScopedAccess"

definition Users_access_update :: "jsval \<Rightarrow> error + access_result" where
  "Users_access_update = selfOrSuperAccess"

definition Users_access_delete :: "jsval \<Rightarrow> error + access_result" where
  "Users_access_delete user = and_then (isSuperAdmin user) (\<lambda>b. Inr (ABool b))"

text \<open>Field-level access returns a boolean.\<close>

definition Users_roles_access_update :: "jsval \<Rightarrow> error + bool" where
  "Users_roles_access_update user = isSuperAdmin user"

definition Users_tenants_arrayFieldAccess_read :: "jsval \<Rightarrow> error + bool" where
  "Users_tenants_arrayFieldAccess_read user = Inr (truthy user)"

definition Users_tenants_arrayFieldAccess_update :: "jsval \<Rightarrow> error + bool" where
  "Users_tenants_arrayFieldAccess_update user = isSuperAdmin user"

definition Users_tenants_tenantFieldAccess_read :: "jsval \<Rightarrow> error + bool" where
  "Users_tenants_tenantFieldAccess_read user = Inr (truthy user)"

definition Users_tenants_tenantFieldAccess_update :: "jsval \<Rightarrow> error + bool" where
  "Users_tenants_tenantFieldAccess_update user = isSuperAdmin user"

subsection \<open>The beforeChange hook\<close>

text \<open>
  The payload \<^verbatim>\<open>data\<close> is an object or undefined (\<open>None\<close>).
  \<^verbatim>\<open>{ ...data, tenants: t, roles: r }\<close> copies the own properties of \<^verbatim>\<open>data\<close>
  (none when it is undefined) and then sets the two keys: a key that exists keeps its
  place, a new key goes to the end.
\<close>

fun spread :: "jsobj option \<Rightarrow> jsobj" where
  "spread None = []"
| "spread (Some fs) = fs"

fun obj_set :: "string \<Rightarrow> jsval \<Rightarrow> jsobj \<Rightarrow> jsobj" where
  "obj_set k v [] = [(k, v)]"
| "obj_set k v (p # ps) = (if fst p = k then (k, v) # ps else p # obj_set k v ps)"

text \<open>\<^verbatim>\<open>data?.k\<close>\<close>

fun data_prop :: "jsobj option \<Rightarrow> string \<Rightarrow> jsval" where
  "data_prop None k = JUndefined"
| "data_prop (Some fs) k = obj_get fs k"

text \<open>\<^verbatim>\<open>a ?? b\<close>\<close>

definition js_coalesce :: "jsval \<Rightarrow> jsval \<Rightarrow> jsval" where
  "js_coalesce a b = (if nullish a then b else a)"

text \<open>\<^verbatim>\<open>(id) => ({ tenant: id })\<close>\<close>

definition wrap_tenant :: "jsval \<Rightarrow> jsval" where
  "wrap_tenant i = JObj [(''tenant'', i)]"

definition Users_beforeChange :: "jsobj option \<Rightarrow> jsval \<Rightarrow> string \<Rightarrow> error + jsobj option" where
  "Users_beforeChange data requester operation =
     (if operation \<noteq> ''create'' then Inr data
      else if \<not> truthy requester then Inr data
      else and_then (isSuperAdmin requester) (\<lambda>super.
        if super then Inr data
        else and_then (getTenantIds requester) (\<lambda>tenantIds.
          Inr (Some
            (obj_set ''roles'' (js_coalesce (data_prop data ''roles'') (JArr [JStr ''tenant-admin'']))
              (obj_set ''tenants'' (JArr (map wrap_tenant tenantIds))
                (spread data)))))))"

section \<open>Tenants collection (collections/Tenants.ts)\<close>

definition readTenantAccess :: "jsval \<Rightarrow> error + access_result" where
  "readTenantAccess user =
     and_then (isSuperAdmin user) (\<lambda>super.
       if super then Inr (ABool True)
       else and_then (getTenantIds user) (\<lambda>tenantIds.
         if length tenantIds = 0 then Inr (ABool False)
         else Inr (AWhere (WIn ''id'' tenantIds))))"

definition Tenants_access_create :: "jsval \<Rightarrow> error + access_result" where
  "Tenants_access_create user = and_then (isSuperAdmin user) (\<lambda>b. Inr (ABool b))"

definition Tenants_access_read :: "jsval \<Rightarrow> error + access_result" where
  "Tenants_access_read = readTenantAccess"

definition Tenants_access_update :: "jsval \<Rightarrow> error + access_result" where
  "Tenants_access_update user = and_then (isSuperAdmin user) (\<lambda>b. Inr (ABool b))"

definition Tenants_access_delete :: "jsval \<Rightarrow> error + access_result" where
  "Tenants_access_delete user = and_then (isSuperAdmin user) (\<lambda>b. Inr (ABool b))"

definition Tenants_access_admin :: "jsval \<Rightarrow> error + access_result" where
  "Tenants_access_admin user = and_then (isSuperAdmin user) (\<lambda>b. Inr (ABool b))"

section \<open>The earlier, role-gated collection configs\<close>

text \<open>
  The sources also hold an earlier version of both collections, each with its own
  \<^verbatim>\<open>isSuperAdmin\<close>: \<^verbatim>\<open>Array.isArray(user?.roles) && user.roles.includes('super-admin')\<close>.
  The two copies are kept apart here, as they are in the source.
\<close>

fun isArray :: "jsval \<Rightarrow> bool" where
  "isArray (JArr xs) = True"
| "isArray v = False"

definition isSuperAdmin_Tenants :: "jsval \<Rightarrow> error + bool" where
  "isSuperAdmin_Tenants user =
     (if \<not> isArray (opt_prop user ''roles'') then Inr False
      else and_then (get_prop user ''roles'') (\<lambda>roles. method_includes roles ''super-admin''))"

definition isSuperAdmin_Users :: "jsval \<Rightarrow> error + bool" where
  "isSuperAdmin_Users user =
     (if \<not> isArray (opt_prop user ''roles'') then Inr False
      else and_then (get_prop user ''roles'') (\<lambda>roles. method_includes roles ''super-admin''))"

definition TenantsV0_access_create :: "jsval \<Rightarrow> error + access_result" where
  "TenantsV0_access_create user = and_then (isSuperAdmin_Tenants user) (\<lambda>b. Inr (ABool b))"

definition TenantsV0_access_update :: "jsval \<Rightarrow> error + access_result" where
  "TenantsV0_access_update user = and_then (isSuperAdmin_Tenants user) (\<lambda>b. Inr (ABool b))"

definition TenantsV0_access_delete :: "jsval \<Rightarrow> error + access_result" where
  "TenantsV0_access_delete user = and_then (isSuperAdmin_Tenants user) (\<lambda>b. Inr (ABool b))"

definition TenantsV0_access_read :: "jsval \<Rightarrow> error + access_result" where
  "TenantsV0_access_read user = Inr (ABool (truthy user))"

definition UsersV0_roles_access_create :: "jsval \<Rightarrow> error + bool" where
  "UsersV0_roles_access_create user = isSuperAdmin_Users user"

definition UsersV0_roles_access_update :: "jsval \<Rightarrow> error + bool" where
  "UsersV0_roles_access_update user = isSuperAdmin_Users user"

section \<open>Notions of the specification\<close>

text \<open>The role set of a user contains the role \<open>r\<close>.\<close>

definition has_role :: "jsval \<Rightarrow> string \<Rightarrow> bool" where
  "has_role user r = (case opt_prop user ''roles'' of JArr rs \<Rightarrow> JStr r \<in> set rs | _ \<Rightarrow> False)"

text \<open>No user is authenticated: the request carries undefined or null.\<close>

definition absent :: "jsval \<Rightarrow> bool" where
  "absent user = nullish user"

text \<open>
  The shape that the interface \<^verbatim>\<open>AuthUser\<close> promises, as far as the code depends on it:
  \<^verbatim>\<open>roles\<close> and \<^verbatim>\<open>tenants\<close> are each missing, null or an array. The entries of
  \<^verbatim>\<open>tenants\<close> are not constrained.
\<close>

fun nullish_or_array :: "jsval \<Rightarrow> bool" where
  "nullish_or_array JUndefined = True"
| "nullish_or_array JNull = True"
| "nullish_or_array (JArr xs) = True"
| "nullish_or_array v = False"

definition roles_ok :: "jsval \<Rightarrow> bool" where
  "roles_ok user = nullish_or_array (opt_prop user ''roles'')"

definition tenants_ok :: "jsval \<Rightarrow> bool" where
  "tenants_ok user = nullish_or_array (opt_prop user ''tenants'')"

definition conforms :: "jsval \<Rightarrow> bool" where
  "conforms user = (roles_ok user \<and> tenants_ok user)"

text \<open>The membership entries of a user, none when \<^verbatim>\<open>tenants\<close> is not an array.\<close>

definition memberships :: "jsval \<Rightarrow> jsval list" where
  "memberships user = (case opt_prop user ''tenants'' of JArr ts \<Rightarrow> ts | _ \<Rightarrow> [])"

text \<open>
  Modelled from the spec: the framework that applies a returned filter to a record is
  not part of the sources. The spec describes a constraint language with equality,
  set membership and logical or, and an operation permitted only on records that
  satisfy the constraint. A record is given by the values found at each field path.
\<close>

fun satisfies :: "(string \<Rightarrow> jsval list) \<Rightarrow> Where \<Rightarrow> bool" where
  "satisfies doc (WEquals f v) = (v \<in> set (doc f))"
| "satisfies doc (WIn f vs) = (\<exists>x \<in> set (doc f). x \<in> set vs)"
| "satisfies doc (WOr cs) = (\<exists>c \<in> set cs. satisfies doc c)"

fun permits :: "access_result \<Rightarrow> (string \<Rightarrow> jsval list) \<Rightarrow> bool" where
  "permits (ABool b) doc = b"
| "permits (AWhere w) doc = satisfies doc w"






section \<open>Example users\<close>

definition example_super_admin :: jsval where
  "example_super_admin = JObj [(''id'', JStr ''u0''), (''roles'', JArr [JStr ''super-admin''])]"

definition example_tenant_admin :: jsval where
  "example_tenant_admin =
     JObj [(''id'', JStr ''u1''),
           (''roles'', JArr [JStr ''tenant-admin'']),
           (''tenants'', JArr [JObj [(''tenant'', JStr ''t1'')], JObj [(''tenant'', JStr ''t2'')]])]"

definition example_no_tenants :: jsval where
  "example_no_tenants = JObj [(''id'', JStr ''u2''), (''roles'', JArr [JStr ''tenant-admin''])]"

definition example_falsy_memberships :: "jsval list" where
  "example_falsy_memberships =
     [JObj [], JObj [(''id'', JStr '''')], JObj [(''id'', JNull)], JObj [(''value'', JStr '''')],
      JObj [(''tenant'', JStr '''')], JObj [(''tenant'', JNull)], JObj [(''tenant'', JObj [])],
      JNull, JUndefined, JNum 7, JArr [JStr ''t9'']]"


text \<open>A user whose \<^verbatim>\<open>roles\<close> is the string \<^verbatim>\<open>'super-admin'\<close>, not an array.\<close>

definition example_roles_string :: jsval where
  "example_roles_string = JObj [(''id'', JStr ''u3''), (''roles'', JStr ''super-admin'')]"

text \<open>A user whose \<^verbatim>\<open>roles\<close> is a number.\<close>

definition example_roles_number :: jsval where
  "example_roles_number = JObj [(''id'', JStr ''u4''), (''roles'', JNum 1)]"

text \<open>A user whose \<^verbatim>\<open>tenants\<close> is a string, not an array.\<close>

definition example_tenants_string :: jsval where
  "example_tenants_string =
     JObj [(''id'', JStr ''u5''), (''roles'', JArr [JStr ''tenant-admin'']), (''tenants'', JStr ''t1'')]"


section \<open>The access functions as families\<close>

text \<open>Every collection-level access function of the sources, and every field-level one.\<close>

definition collection_access :: "(jsval \<Rightarrow> error + access_result) list" where
  "collection_access =
     [Tenants_access_create, Tenants_access_read, Tenants_access_update, Tenants_access_delete,
      Tenants_access_admin,
      Users_access_admin, Users_access_create, Users_access_read, Users_access_update,
      Users_access_delete,
      TenantsV0_access_create, TenantsV0_access_update, TenantsV0_access_delete,
      TenantsV0_access_read]"

definition field_access :: "(jsval \<Rightarrow> error + bool) list" where
  "field_access =
     [Users_roles_access_update,
      Users_tenants_arrayFieldAccess_read, Users_tenants_arrayFieldAccess_update,
      Users_tenants_tenantFieldAccess_read, Users_tenants_tenantFieldAccess_update,
      UsersV0_roles_access_create, UsersV0_roles_access_update]"

text \<open>The fields of a payload that the hook does not set.\<close>

definition other_fields :: "jsobj \<Rightarrow> jsobj" where
  "other_fields fs = filter (\<lambda>p. fst p \<noteq> ''tenants'' \<and> fst p \<noteq> ''roles'') fs"

text \<open>A creation payload that names its own tenants and roles.\<close>

definition example_payload :: "jsobj option" where
  "example_payload =
     Some [(''email'', JStr ''new@example.com''),
           (''tenants'', JArr [JObj [(''tenant'', JStr ''t9'')]]),
           (''roles'', JArr [JStr ''tenant-editor''])]"

section \<open>Basic facts\<close>

lemma and_then_Inr [simp]: "and_then (Inr v) f = f v"
  by (simp add: and_then_def)

lemma and_then_Inl [simp]: "and_then (Inl e) f = Inl e"
  by (simp add: and_then_def)

lemma nullish_not_truthy: "nullish v \<Longrightarrow> \<not> truthy v"
  by (cases v) simp_all

lemma get_prop_truthy: "truthy v \<Longrightarrow> get_prop v k = Inr (opt_prop v k)"
  by (auto simp: get_prop_def dest: nullish_not_truthy)

lemma has_role_truthy: "has_role user r \<Longrightarrow> truthy user"
  by (cases user) (simp_all add: has_role_def)

lemma isSuperAdmin_roles_ok: "roles_ok user \<Longrightarrow> isSuperAdmin user = Inr (has_role user ''super-admin'')"
  by (cases "opt_prop user ''roles''")
     (simp_all add: roles_ok_def isSuperAdmin_def has_role_def method_includes_def)

lemma has_role_roles_ok: "has_role user r \<Longrightarrow> roles_ok user"
  by (cases "opt_prop user ''roles''") (simp_all add: roles_ok_def has_role_def)

lemma isSuperAdmin_has_role: "has_role user ''super-admin'' \<Longrightarrow> isSuperAdmin user = Inr True"
  by (simp add: isSuperAdmin_roles_ok has_role_roles_ok)

lemma getTenantIds_tenants_ok:
  "tenants_ok user \<Longrightarrow> getTenantIds user = Inr (filter truthy (map resolveTenant (memberships user)))"
  by (cases "opt_prop user ''tenants''")
     (simp_all add: tenants_ok_def getTenantIds_def memberships_def)

lemma getTenantIds_array:
  "opt_prop user ''tenants'' = JArr ts \<Longrightarrow> getTenantIds user = Inr (filter truthy (map resolveTenant ts))"
  by (simp add: getTenantIds_def)


lemma absent_conforms: "absent user \<Longrightarrow> conforms user"
  by (cases user) (simp_all add: absent_def conforms_def roles_ok_def tenants_ok_def)

lemma absent_not_role: "absent user \<Longrightarrow> \<not> has_role user r"
  by (cases user) (simp_all add: absent_def has_role_def)

lemma absent_memberships: "absent user \<Longrightarrow> memberships user = []"
  by (cases user) (simp_all add: absent_def memberships_def)

lemma absent_not_truthy: "absent user \<Longrightarrow> \<not> truthy user"
  by (simp add: absent_def nullish_not_truthy)

section \<open>The super-admin override\<close>

text \<open>
  C1. A user whose role set contains \<open>super-admin\<close> gets \<open>GRANT_ALL\<close> from every access
  function of the Tenants collection (create, read, update, delete, admin) and of the
  Users collection (create, read, update, delete, admin). No function takes the target
  record, and none looks at the tenant memberships of such a user.
\<close>

theorem super_admin_grants_all:
  assumes "has_role user ''super-admin''"
  shows "Tenants_access_create user = Inr GRANT_ALL
       \<and> Tenants_access_read user = Inr GRANT_ALL
       \<and> Tenants_access_update user = Inr GRANT_ALL
       \<and> Tenants_access_delete user = Inr GRANT_ALL
       \<and> Tenants_access_admin user = Inr GRANT_ALL
       \<and> Users_access_create user = Inr GRANT_ALL
       \<and> Users_access_read user = Inr GRANT_ALL
       \<and> Users_access_update user = Inr GRANT_ALL
       \<and> Users_access_delete user = Inr GRANT_ALL
       \<and> Users_access_admin user = Inr GRANT_ALL"
proof -
  have s: "isSuperAdmin user = Inr True" and t: "truthy user"
    using assms by (simp_all add: isSuperAdmin_has_role has_role_truthy)
  show ?thesis
    by (simp add: s t Tenants_access_create_def Tenants_access_read_def readTenantAccess_def
        Tenants_access_update_def Tenants_access_delete_def Tenants_access_admin_def
        Users_access_create_def Users_access_read_def tenantScopedAccess_def
        Users_access_update_def selfOrSuperAccess_def Users_access_delete_def
        Users_access_admin_def)
qed

theorem super_admin_grants_all_witness:
  "has_role example_super_admin ''super-admin''
   \<and> Tenants_access_create example_super_admin = Inr GRANT_ALL
   \<and> Tenants_access_read example_super_admin = Inr GRANT_ALL
   \<and> Tenants_access_update example_super_admin = Inr GRANT_ALL
   \<and> Tenants_access_delete example_super_admin = Inr GRANT_ALL
   \<and> Tenants_access_admin example_super_admin = Inr GRANT_ALL
   \<and> Users_access_create example_super_admin = Inr GRANT_ALL
   \<and> Users_access_read example_super_admin = Inr GRANT_ALL
   \<and> Users_access_update example_super_admin = Inr GRANT_ALL
   \<and> Users_access_delete example_super_admin = Inr GRANT_ALL
   \<and> Users_access_admin example_super_admin = Inr GRANT_ALL"
proof -
  have h: "has_role example_super_admin ''super-admin''"
    by (simp add: has_role_def example_super_admin_def obj_get_def)
  show ?thesis
    using h super_admin_grants_all [OF h] by simp
qed

section \<open>The tenant resolver\<close>

lemma getTenantIds_example:
  "getTenantIds (JObj [(''tenants'', JArr example_memberships)])
     = Inr [JStr ''t1'', JStr ''t2'', JStr ''t3'', JStr ''t4'', JStr ''t5'', JStr ''t6'']"
  by (simp add: getTenantIds_def example_memberships_def resolveTenant_def obj_get_def js_or_def)

lemma getTenantIds_falsy:
  "getTenantIds (JObj [(''tenants'', JArr example_falsy_memberships)]) = Inr []"
  by (simp add: getTenantIds_def example_falsy_memberships_def resolveTenant_def obj_get_def
      js_or_def)

lemma getTenantIds_no_tenants: "nullish (opt_prop user ''tenants'') \<Longrightarrow> getTenantIds user = Inr []"
  by (simp add: getTenantIds_def nullish_not_truthy)

lemma getTenantIds_absent: "absent user \<Longrightarrow> getTenantIds user = Inr []"
  by (cases user) (simp_all add: absent_def getTenantIds_def)


text \<open>
  C5. On the membership list of the example the resolver returns the six identifiers
  \<open>t1\<close> to \<open>t6\<close>. Entries that resolve to a falsy value (missing, empty string, null)
  are dropped: on an array of entries the resolver does not raise, and its output holds
  exactly the truthy resolutions of the entries. An absent user, and a user without a
  membership collection, yield the empty list.
\<close>

theorem resolver_example:
  "getTenantIds (JObj [(''tenants'', JArr example_memberships)])
     = Inr [JStr ''t1'', JStr ''t2'', JStr ''t3'', JStr ''t4'', JStr ''t5'', JStr ''t6'']
   \<and> getTenantIds (JObj [(''tenants'', JArr example_falsy_memberships)]) = Inr []
   \<and> (opt_prop user ''tenants'' = JArr es \<longrightarrow>
        (\<exists>ts. getTenantIds user = Inr ts
           \<and> (\<forall>x. x \<in> set ts \<longleftrightarrow> truthy x \<and> x \<in> resolveTenant ` set es)))
   \<and> (absent user \<longrightarrow> getTenantIds user = Inr [])
   \<and> (nullish (opt_prop user ''tenants'') \<longrightarrow> getTenantIds user = Inr [])"
proof -
  have arr: "opt_prop user ''tenants'' = JArr es \<longrightarrow>
        (\<exists>ts. getTenantIds user = Inr ts
           \<and> (\<forall>x. x \<in> set ts \<longleftrightarrow> truthy x \<and> x \<in> resolveTenant ` set es))"
    by (auto simp: getTenantIds_array)
  have ab: "absent user \<longrightarrow> getTenantIds user = Inr []"
    by (simp add: getTenantIds_absent)
  have nt: "nullish (opt_prop user ''tenants'') \<longrightarrow> getTenantIds user = Inr []"
    by (simp add: getTenantIds_no_tenants)
  show ?thesis
    by (rule conjI [OF getTenantIds_example conjI [OF getTenantIds_falsy conjI [OF arr conjI [OF ab nt]]]])
qed

theorem resolver_example_witness:
  "opt_prop (JObj [(''tenants'', JArr example_memberships)]) ''tenants'' = JArr example_memberships
   \<and> (\<exists>ts. getTenantIds (JObj [(''tenants'', JArr example_memberships)]) = Inr ts
         \<and> (\<forall>x. x \<in> set ts \<longleftrightarrow> truthy x \<and> x \<in> resolveTenant ` set example_memberships))
   \<and> absent JNull \<and> getTenantIds JNull = Inr []
   \<and> nullish (opt_prop example_no_tenants ''tenants'')
   \<and> getTenantIds example_no_tenants = Inr []"
proof -
  have a: "opt_prop (JObj [(''tenants'', JArr example_memberships)]) ''tenants'' = JArr example_memberships"
    by (simp add: obj_get_def)
  have b: "absent JNull"
    by (simp add: absent_def)
  have c: "nullish (opt_prop example_no_tenants ''tenants'')"
    by (simp add: example_no_tenants_def obj_get_def)
  note r1 = resolver_example [of "JObj [(''tenants'', JArr example_memberships)]" example_memberships]
  note r2 = resolver_example [of JNull "[]"]
  note r3 = resolver_example [of example_no_tenants "[]"]
  have a': "\<exists>ts. getTenantIds (JObj [(''tenants'', JArr example_memberships)]) = Inr ts
         \<and> (\<forall>x. x \<in> set ts \<longleftrightarrow> truthy x \<and> x \<in> resolveTenant ` set example_memberships)"
    by (rule mp [OF r1 [THEN conjunct2, THEN conjunct2, THEN conjunct1] a])
  have b': "getTenantIds JNull = Inr []"
    by (rule mp [OF r2 [THEN conjunct2, THEN conjunct2, THEN conjunct2, THEN conjunct1] b])
  have c': "getTenantIds example_no_tenants = Inr []"
    by (rule mp [OF r3 [THEN conjunct2, THEN conjunct2, THEN conjunct2, THEN conjunct2] c])
  show ?thesis
    by (rule conjI [OF a conjI [OF a' conjI [OF b conjI [OF b' conjI [OF c c']]]]])
qed







section \<open>Read access\<close>

lemma example_super_admin_role: "has_role example_super_admin ''super-admin''"
  by (simp add: has_role_def example_super_admin_def obj_get_def)

lemma example_tenant_admin_shape:
  "truthy example_tenant_admin \<and> conforms example_tenant_admin
   \<and> \<not> has_role example_tenant_admin ''super-admin''"
  by (simp add: example_tenant_admin_def conforms_def roles_ok_def tenants_ok_def has_role_def
      obj_get_def)

lemma example_no_tenants_shape:
  "truthy example_no_tenants \<and> conforms example_no_tenants
   \<and> \<not> has_role example_no_tenants ''super-admin''"
  by (simp add: example_no_tenants_def conforms_def roles_ok_def tenants_ok_def has_role_def
      obj_get_def)

lemma example_tenant_admin_ids:
  "getTenantIds example_tenant_admin = Inr [JStr ''t1'', JStr ''t2'']"
  by (simp add: example_tenant_admin_def getTenantIds_def resolveTenant_def obj_get_def)

lemma example_no_tenants_memberships: "memberships example_no_tenants = []"
  by (simp add: example_no_tenants_def memberships_def obj_get_def)

lemma tenantScopedAccess_scoped:
  assumes "truthy user" and "conforms user" and "\<not> has_role user ''super-admin''"
  shows "tenantScopedAccess user =
     Inr (AWhere
       (if filter truthy (map resolveTenant (memberships user)) \<noteq> []
        then WOr [WEquals ''id'' (opt_prop user ''id''),
                  WIn ''tenants.tenant'' (filter truthy (map resolveTenant (memberships user)))]
        else WEquals ''id'' (opt_prop user ''id'')))"
proof -
  have s: "isSuperAdmin user = Inr False"
    using assms by (simp add: conforms_def isSuperAdmin_roles_ok)
  have g: "getTenantIds user = Inr (filter truthy (map resolveTenant (memberships user)))"
    using assms by (simp add: conforms_def getTenantIds_tenants_ok)
  show ?thesis
    using assms(1) by (simp add: tenantScopedAccess_def s g get_prop_truthy)
qed

lemma readTenantAccess_scoped:
  assumes "conforms user" and "\<not> has_role user ''super-admin''"
  shows "readTenantAccess user =
     Inr (if filter truthy (map resolveTenant (memberships user)) \<noteq> []
          then AWhere (WIn ''id'' (filter truthy (map resolveTenant (memberships user))))
          else DENY_ALL)"
proof -
  have s: "isSuperAdmin user = Inr False"
    using assms by (simp add: conforms_def isSuperAdmin_roles_ok)
  have g: "getTenantIds user = Inr (filter truthy (map resolveTenant (memberships user)))"
    using assms by (simp add: conforms_def getTenantIds_tenants_ok)
  show ?thesis
    by (simp add: readTenantAccess_def s g)
qed

lemma user_read_example:
  "Users_access_read example_tenant_admin
     = Inr (AWhere (WOr [WEquals ''id'' (JStr ''u1''),
                         WIn ''tenants.tenant'' [JStr ''t1'', JStr ''t2'']]))"
  by (simp add: Users_access_read_def tenantScopedAccess_def example_tenant_admin_def
      isSuperAdmin_def method_includes_def getTenantIds_def resolveTenant_def get_prop_def
      obj_get_def)

text \<open>
  C3. Reading users: without a user the answer is \<open>DENY_ALL\<close>; for a super-admin it is
  \<open>GRANT_ALL\<close>; for any other user it is a filter. When the resolver returns identifiers
  the filter is the \<open>or\<close> of "id equals the user's id" and "tenants.tenant in the resolved
  identifiers"; when it returns none, the filter is the id constraint alone. The filter
  cases are stated for users of the declared shape (\<open>conforms\<close>).
\<close>

theorem user_read_access:
  "(\<not> truthy user \<longrightarrow> Users_access_read user = Inr DENY_ALL)
   \<and> (has_role user ''super-admin'' \<longrightarrow> Users_access_read user = Inr GRANT_ALL)
   \<and> (truthy user \<and> conforms user \<and> \<not> has_role user ''super-admin'' \<longrightarrow>
        (\<exists>tids. getTenantIds user = Inr tids
           \<and> Users_access_read user =
               Inr (AWhere
                 (if tids \<noteq> []
                  then WOr [WEquals ''id'' (opt_prop user ''id''), WIn ''tenants.tenant'' tids]
                  else WEquals ''id'' (opt_prop user ''id'')))))
   \<and> (truthy user \<and> conforms user \<and> \<not> has_role user ''super-admin''
        \<and> memberships user = [] \<longrightarrow>
        Users_access_read user = Inr (AWhere (WEquals ''id'' (opt_prop user ''id''))))"
proof -
  have a: "\<not> truthy user \<longrightarrow> Users_access_read user = Inr DENY_ALL"
    by (simp add: Users_access_read_def tenantScopedAccess_def)
  have b: "has_role user ''super-admin'' \<longrightarrow> Users_access_read user = Inr GRANT_ALL"
    by (simp add: Users_access_read_def tenantScopedAccess_def isSuperAdmin_has_role
        has_role_truthy)
  have c: "truthy user \<and> conforms user \<and> \<not> has_role user ''super-admin'' \<longrightarrow>
        (\<exists>tids. getTenantIds user = Inr tids
           \<and> Users_access_read user =
               Inr (AWhere
                 (if tids \<noteq> []
                  then WOr [WEquals ''id'' (opt_prop user ''id''), WIn ''tenants.tenant'' tids]
                  else WEquals ''id'' (opt_prop user ''id''))))"
    by (auto simp: Users_access_read_def tenantScopedAccess_scoped conforms_def
        getTenantIds_tenants_ok)
  have d: "truthy user \<and> conforms user \<and> \<not> has_role user ''super-admin''
        \<and> memberships user = [] \<longrightarrow>
        Users_access_read user = Inr (AWhere (WEquals ''id'' (opt_prop user ''id'')))"
    by (simp add: Users_access_read_def tenantScopedAccess_scoped)
  show ?thesis
    by (rule conjI [OF a conjI [OF b conjI [OF c d]]])
qed

theorem user_read_access_witness:
  "\<not> truthy JUndefined \<and> Users_access_read JUndefined = Inr DENY_ALL
   \<and> has_role example_super_admin ''super-admin''
   \<and> Users_access_read example_super_admin = Inr GRANT_ALL
   \<and> (truthy example_tenant_admin \<and> conforms example_tenant_admin
        \<and> \<not> has_role example_tenant_admin ''super-admin'')
   \<and> (\<exists>tids. getTenantIds example_tenant_admin = Inr tids
         \<and> Users_access_read example_tenant_admin =
             Inr (AWhere
               (if tids \<noteq> []
                then WOr [WEquals ''id'' (opt_prop example_tenant_admin ''id''),
                          WIn ''tenants.tenant'' tids]
                else WEquals ''id'' (opt_prop example_tenant_admin ''id''))))
   \<and> (truthy example_no_tenants \<and> conforms example_no_tenants
        \<and> \<not> has_role example_no_tenants ''super-admin''
        \<and> memberships example_no_tenants = [])
   \<and> Users_access_read example_no_tenants
       = Inr (AWhere (WEquals ''id'' (opt_prop example_no_tenants ''id'')))"
proof -
  have h1: "\<not> truthy JUndefined"
    by simp
  note h2 = example_super_admin_role
  note h3 = example_tenant_admin_shape
  have h4: "truthy example_no_tenants \<and> conforms example_no_tenants
        \<and> \<not> has_role example_no_tenants ''super-admin''
        \<and> memberships example_no_tenants = []"
    using example_no_tenants_shape example_no_tenants_memberships by simp
  note c1 = mp [OF user_read_access [of JUndefined, THEN conjunct1] h1]
  note c2 = mp [OF user_read_access [of example_super_admin, THEN conjunct2, THEN conjunct1] h2]
  note c3 = mp [OF user_read_access [of example_tenant_admin, THEN conjunct2, THEN conjunct2,
        THEN conjunct1] h3]
  note c4 = mp [OF user_read_access [of example_no_tenants, THEN conjunct2, THEN conjunct2,
        THEN conjunct2] h4]
  show ?thesis
    by (rule conjI [OF h1 conjI [OF c1 conjI [OF h2 conjI [OF c2 conjI [OF h3 conjI [OF c3
        conjI [OF h4 c4]]]]]]])
qed

text \<open>
  C4. Reading tenants: a super-admin gets \<open>GRANT_ALL\<close>; any other user gets the filter
  "id in the resolved identifiers" when the resolver returns identifiers, and
  \<open>DENY_ALL\<close> when it returns none, which is the case for a user without memberships and
  for an absent user. The cases other than the super-admin's are stated for users of the
  declared shape (\<open>conforms\<close>).
\<close>

theorem tenant_read_access:
  "(has_role user ''super-admin'' \<longrightarrow> Tenants_access_read user = Inr GRANT_ALL)
   \<and> (conforms user \<and> \<not> has_role user ''super-admin'' \<longrightarrow>
        (\<exists>tids. getTenantIds user = Inr tids
           \<and> Tenants_access_read user =
               Inr (if tids \<noteq> [] then AWhere (WIn ''id'' tids) else DENY_ALL)))
   \<and> (conforms user \<and> \<not> has_role user ''super-admin'' \<and> memberships user = [] \<longrightarrow>
        Tenants_access_read user = Inr DENY_ALL)
   \<and> (absent user \<longrightarrow> Tenants_access_read user = Inr DENY_ALL)"
proof -
  have a: "has_role user ''super-admin'' \<longrightarrow> Tenants_access_read user = Inr GRANT_ALL"
    by (simp add: Tenants_access_read_def readTenantAccess_def isSuperAdmin_has_role)
  have b: "conforms user \<and> \<not> has_role user ''super-admin'' \<longrightarrow>
        (\<exists>tids. getTenantIds user = Inr tids
           \<and> Tenants_access_read user =
               Inr (if tids \<noteq> [] then AWhere (WIn ''id'' tids) else DENY_ALL))"
    by (auto simp: Tenants_access_read_def readTenantAccess_scoped conforms_def
        getTenantIds_tenants_ok)
  have c: "conforms user \<and> \<not> has_role user ''super-admin'' \<and> memberships user = [] \<longrightarrow>
        Tenants_access_read user = Inr DENY_ALL"
    by (simp add: Tenants_access_read_def readTenantAccess_scoped)
  have d: "absent user \<longrightarrow> Tenants_access_read user = Inr DENY_ALL"
    by (simp add: Tenants_access_read_def readTenantAccess_scoped absent_conforms
        absent_not_role absent_memberships)
  show ?thesis
    by (rule conjI [OF a conjI [OF b conjI [OF c d]]])
qed

theorem tenant_read_access_witness:
  "has_role example_super_admin ''super-admin''
   \<and> Tenants_access_read example_super_admin = Inr GRANT_ALL
   \<and> (conforms example_tenant_admin \<and> \<not> has_role example_tenant_admin ''super-admin'')
   \<and> (\<exists>tids. getTenantIds example_tenant_admin = Inr tids
         \<and> Tenants_access_read example_tenant_admin =
             Inr (if tids \<noteq> [] then AWhere (WIn ''id'' tids) else DENY_ALL))
   \<and> (conforms example_no_tenants \<and> \<not> has_role example_no_tenants ''super-admin''
        \<and> memberships example_no_tenants = [])
   \<and> Tenants_access_read example_no_tenants = Inr DENY_ALL
   \<and> absent JUndefined
   \<and> Tenants_access_read JUndefined = Inr DENY_ALL"
proof -
  note h1 = example_super_admin_role
  have h2: "conforms example_tenant_admin \<and> \<not> has_role example_tenant_admin ''super-admin''"
    using example_tenant_admin_shape by simp
  have h3: "conforms example_no_tenants \<and> \<not> has_role example_no_tenants ''super-admin''
        \<and> memberships example_no_tenants = []"
    using example_no_tenants_shape example_no_tenants_memberships by simp
  have h4: "absent JUndefined"
    by (simp add: absent_def)
  note c1 = mp [OF tenant_read_access [of example_super_admin, THEN conjunct1] h1]
  note c2 = mp [OF tenant_read_access [of example_tenant_admin, THEN conjunct2, THEN conjunct1] h2]
  note c3 = mp [OF tenant_read_access [of example_no_tenants, THEN conjunct2, THEN conjunct2,
        THEN conjunct1] h3]
  note c4 = mp [OF tenant_read_access [of JUndefined, THEN conjunct2, THEN conjunct2,
        THEN conjunct2] h4]
  show ?thesis
    by (rule conjI [OF h1 conjI [OF c1 conjI [OF h2 conjI [OF c2 conjI [OF h3 conjI [OF c3
        conjI [OF h4 c4]]]]]]])
qed

section \<open>The role check and its copies\<close>

lemma isSuperAdmin_Tenants_has_role:
  "isSuperAdmin_Tenants user = Inr (has_role user ''super-admin'')"
proof (cases "opt_prop user ''roles''")
  case (JArr rs)
  then have "truthy user"
    by (cases user) simp_all
  with JArr show ?thesis
    by (simp add: isSuperAdmin_Tenants_def get_prop_truthy method_includes_def has_role_def)
qed (simp_all add: isSuperAdmin_Tenants_def has_role_def)

lemma isSuperAdmin_Users_has_role:
  "isSuperAdmin_Users user = Inr (has_role user ''super-admin'')"
proof (cases "opt_prop user ''roles''")
  case (JArr rs)
  then have "truthy user"
    by (cases user) simp_all
  with JArr show ?thesis
    by (simp add: isSuperAdmin_Users_def get_prop_truthy method_includes_def has_role_def)
qed (simp_all add: isSuperAdmin_Users_def has_role_def)

text \<open>
  C8, as the claim states it, fails. For a user whose \<^verbatim>\<open>roles\<close> is the string
  \<^verbatim>\<open>'super-admin'\<close> the shared helper calls the string's \<^verbatim>\<open>includes\<close> and returns true,
  while both per-collection copies stop at \<^verbatim>\<open>Array.isArray\<close> and return false. For a
  \<^verbatim>\<open>roles\<close> that is a number the shared helper raises, the copies return false.
\<close>

theorem isSuperAdmin_copies_differ_counterexample:
  "isSuperAdmin example_roles_string = Inr True
   \<and> isSuperAdmin_Tenants example_roles_string = Inr False
   \<and> isSuperAdmin_Users example_roles_string = Inr False
   \<and> isSuperAdmin example_roles_number = Inl TypeError
   \<and> isSuperAdmin_Tenants example_roles_number = Inr False
   \<and> isSuperAdmin_Users example_roles_number = Inr False"
  by (simp add: example_roles_string_def example_roles_number_def isSuperAdmin_def
      isSuperAdmin_Tenants_def isSuperAdmin_Users_def method_includes_def obj_get_def)

text \<open>
  C8, amended. The two per-collection copies agree on every user and never raise. The
  shared helper agrees with them on every user whose \<^verbatim>\<open>roles\<close> is missing, null or an
  array, which is what \<^verbatim>\<open>AuthUser\<close> declares; there all three return the same boolean.
\<close>

theorem isSuperAdmin_copies_agree:
  "isSuperAdmin_Tenants user = isSuperAdmin_Users user
   \<and> (\<exists>b. isSuperAdmin_Tenants user = Inr b)
   \<and> (roles_ok user \<longrightarrow>
        isSuperAdmin user = isSuperAdmin_Tenants user
        \<and> isSuperAdmin user = isSuperAdmin_Users user
        \<and> (\<exists>b. isSuperAdmin user = Inr b))"
  by (simp add: isSuperAdmin_Tenants_has_role isSuperAdmin_Users_has_role isSuperAdmin_roles_ok)

theorem isSuperAdmin_copies_agree_witness:
  "roles_ok example_tenant_admin
   \<and> isSuperAdmin example_tenant_admin = isSuperAdmin_Tenants example_tenant_admin
   \<and> isSuperAdmin example_tenant_admin = isSuperAdmin_Users example_tenant_admin
   \<and> (\<exists>b. isSuperAdmin example_tenant_admin = Inr b)
   \<and> roles_ok example_super_admin
   \<and> isSuperAdmin example_super_admin = isSuperAdmin_Tenants example_super_admin
   \<and> isSuperAdmin example_super_admin = Inr True"
proof -
  have h1: "roles_ok example_tenant_admin"
    by (simp add: roles_ok_def example_tenant_admin_def obj_get_def)
  have h2: "roles_ok example_super_admin"
    by (simp add: roles_ok_def example_super_admin_def obj_get_def)
  note c1 = mp [OF isSuperAdmin_copies_agree [of example_tenant_admin, THEN conjunct2,
        THEN conjunct2] h1]
  note c2 = mp [OF isSuperAdmin_copies_agree [of example_super_admin, THEN conjunct2,
        THEN conjunct2] h2]
  have t: "isSuperAdmin example_super_admin = Inr True"
    by (rule isSuperAdmin_has_role [OF example_super_admin_role])
  show ?thesis
    by (rule conjI [OF h1 conjI [OF c1 [THEN conjunct1] conjI [OF c1 [THEN conjunct2, THEN conjunct1]
        conjI [OF c1 [THEN conjunct2, THEN conjunct2] conjI [OF h2 conjI [OF c2 [THEN conjunct1] t]]]]]])
qed

section \<open>Field-level guard on roles\<close>

text \<open>
  C7. On a user whose \<^verbatim>\<open>roles\<close> is missing, null or an array, the update access of
  the \<^verbatim>\<open>roles\<close> field is true exactly for super-admins. For an authenticated user who
  is not a super-admin it returns false, while the record-level update access returns
  the filter "id equals the user's id", which the user's own record satisfies.
\<close>

theorem roles_field_update_guard:
  "(roles_ok user \<longrightarrow> Users_roles_access_update user = Inr (has_role user ''super-admin''))
   \<and> (truthy user \<and> roles_ok user \<and> \<not> has_role user ''super-admin'' \<longrightarrow>
        Users_roles_access_update user = Inr False
        \<and> (\<exists>r. Users_access_update user = Inr r
              \<and> r = AWhere (WEquals ''id'' (opt_prop user ''id''))
              \<and> (\<forall>doc. opt_prop user ''id'' \<in> set (doc ''id'') \<longrightarrow> permits r doc)))"
  by (simp add: Users_roles_access_update_def Users_access_update_def selfOrSuperAccess_def
      isSuperAdmin_roles_ok get_prop_truthy)

theorem roles_field_update_guard_witness:
  "roles_ok example_super_admin
   \<and> Users_roles_access_update example_super_admin
       = Inr (has_role example_super_admin ''super-admin'')
   \<and> (truthy example_tenant_admin \<and> roles_ok example_tenant_admin
        \<and> \<not> has_role example_tenant_admin ''super-admin'')
   \<and> Users_roles_access_update example_tenant_admin = Inr False
   \<and> (\<exists>r. Users_access_update example_tenant_admin = Inr r
         \<and> r = AWhere (WEquals ''id'' (opt_prop example_tenant_admin ''id''))
         \<and> (\<forall>doc. opt_prop example_tenant_admin ''id'' \<in> set (doc ''id'') \<longrightarrow> permits r doc))"
proof -
  have h1: "roles_ok example_super_admin"
    by (rule has_role_roles_ok [OF example_super_admin_role])
  have h2: "truthy example_tenant_admin \<and> roles_ok example_tenant_admin
        \<and> \<not> has_role example_tenant_admin ''super-admin''"
    using example_tenant_admin_shape by (simp add: conforms_def)
  note c1 = mp [OF roles_field_update_guard [of example_super_admin, THEN conjunct1] h1]
  note c2 = mp [OF roles_field_update_guard [of example_tenant_admin, THEN conjunct2] h2]
  show ?thesis
    by (rule conjI [OF h1 conjI [OF c1 conjI [OF h2 c2]]])
qed

section \<open>Totality and the absent user\<close>

lemma Users_access_create_conforms:
  assumes "roles_ok user"
  shows "Users_access_create user
           = Inr (ABool (truthy user \<and> (has_role user ''super-admin'' \<or> has_role user ''tenant-admin'')))"
proof (cases "truthy user")
  case False
  then show ?thesis
    by (simp add: Users_access_create_def)
next
  case True
  show ?thesis
    using assms True
    by (cases "opt_prop user ''roles''")
       (simp_all add: Users_access_create_def isSuperAdmin_roles_ok get_prop_truthy roles_ok_def
         has_role_def method_includes_def)
qed

lemma selfOrSuperAccess_conforms:
  assumes "roles_ok user"
  shows "selfOrSuperAccess user
           = Inr (if \<not> truthy user then DENY_ALL
                  else if has_role user ''super-admin'' then GRANT_ALL
                  else AWhere (WEquals ''id'' (opt_prop user ''id'')))"
  using assms by (simp add: selfOrSuperAccess_def isSuperAdmin_roles_ok get_prop_truthy)

lemma tenantScopedAccess_total:
  assumes "conforms user"
  shows "\<exists>r. tenantScopedAccess user = Inr r"
proof (cases "truthy user \<and> \<not> has_role user ''super-admin''")
  case True
  then show ?thesis
    using assms by (simp add: tenantScopedAccess_scoped)
next
  case False
  then show ?thesis
    using assms
    by (auto simp: tenantScopedAccess_def isSuperAdmin_has_role)
qed

lemma readTenantAccess_total:
  assumes "conforms user"
  shows "\<exists>r. readTenantAccess user = Inr r"
proof (cases "has_role user ''super-admin''")
  case True
  then show ?thesis
    by (simp add: readTenantAccess_def isSuperAdmin_has_role)
next
  case False
  then show ?thesis
    using assms by (simp add: readTenantAccess_scoped)
qed

lemma collection_access_total:
  assumes "conforms user" and "p \<in> set collection_access"
  shows "\<exists>r. p user = Inr r"
proof -
  have r: "roles_ok user"
    using assms(1) by (simp add: conforms_def)
  have "p = Tenants_access_read \<or> p = Users_access_read \<or> p = Users_access_create
        \<or> p = Users_access_update
        \<or> p \<in> {Tenants_access_create, Tenants_access_update, Tenants_access_delete,
                 Tenants_access_admin, Users_access_admin, Users_access_delete,
                 TenantsV0_access_create, TenantsV0_access_update, TenantsV0_access_delete,
                 TenantsV0_access_read}"
    using assms(2) by (auto simp: collection_access_def)
  then consider (tr) "p = Tenants_access_read" | (ur) "p = Users_access_read"
    | (uc) "p = Users_access_create" | (uu) "p = Users_access_update"
    | (rest) "p \<in> {Tenants_access_create, Tenants_access_update, Tenants_access_delete,
                 Tenants_access_admin, Users_access_admin, Users_access_delete,
                 TenantsV0_access_create, TenantsV0_access_update, TenantsV0_access_delete,
                 TenantsV0_access_read}"
    by blast
  then show ?thesis
  proof cases
    case tr
    then show ?thesis
      using assms(1) by (simp add: Tenants_access_read_def readTenantAccess_total)
  next
    case ur
    then show ?thesis
      using assms(1) by (simp add: Users_access_read_def tenantScopedAccess_total)
  next
    case uc
    then show ?thesis
      using r by (simp add: Users_access_create_conforms)
  next
    case uu
    then show ?thesis
      using r by (simp add: Users_access_update_def selfOrSuperAccess_conforms)
  next
    case rest
    then show ?thesis
      using r
      by (auto simp: Tenants_access_create_def Tenants_access_update_def
          Tenants_access_delete_def Tenants_access_admin_def Users_access_admin_def
          Users_access_delete_def TenantsV0_access_create_def TenantsV0_access_update_def
          TenantsV0_access_delete_def TenantsV0_access_read_def isSuperAdmin_roles_ok
          isSuperAdmin_Tenants_has_role)
  qed
qed

lemma field_access_total:
  assumes "conforms user" and "p \<in> set field_access"
  shows "\<exists>b. p user = Inr b"
proof -
  have r: "roles_ok user"
    using assms(1) by (simp add: conforms_def)
  show ?thesis
    using assms(2) r
    by (auto simp: field_access_def Users_roles_access_update_def
        Users_tenants_arrayFieldAccess_read_def Users_tenants_arrayFieldAccess_update_def
        Users_tenants_tenantFieldAccess_read_def Users_tenants_tenantFieldAccess_update_def
        UsersV0_roles_access_create_def UsersV0_roles_access_update_def isSuperAdmin_roles_ok
        isSuperAdmin_Users_has_role)
qed

lemma collection_access_absent:
  assumes "absent user" and "p \<in> set collection_access"
  shows "p user = Inr DENY_ALL"
proof -
  have c: "conforms user" and r: "roles_ok user" and t: "\<not> truthy user"
    and n: "\<not> has_role user ''super-admin''" and m: "memberships user = []"
    using assms(1)
    by (simp_all add: absent_conforms absent_conforms [unfolded conforms_def] absent_not_truthy
        absent_not_role absent_memberships)
  show ?thesis
    using assms(2)
    by (auto simp: collection_access_def Tenants_access_read_def readTenantAccess_scoped [OF c n]
        m Users_access_read_def tenantScopedAccess_def t Users_access_create_conforms [OF r]
        Users_access_update_def selfOrSuperAccess_conforms [OF r]
        Tenants_access_create_def Tenants_access_update_def
        Tenants_access_delete_def Tenants_access_admin_def Users_access_admin_def
        Users_access_delete_def TenantsV0_access_create_def TenantsV0_access_update_def
        TenantsV0_access_delete_def TenantsV0_access_read_def isSuperAdmin_roles_ok [OF r] n
        isSuperAdmin_Tenants_has_role)
qed

lemma field_access_absent:
  assumes "absent user" and "p \<in> set field_access"
  shows "p user = Inr False"
proof -
  have r: "roles_ok user" and t: "\<not> truthy user" and n: "\<not> has_role user ''super-admin''"
    using assms(1)
    by (simp_all add: absent_conforms [unfolded conforms_def] absent_not_truthy absent_not_role)
  show ?thesis
    using assms(2)
    by (auto simp: field_access_def Users_roles_access_update_def
        Users_tenants_arrayFieldAccess_read_def Users_tenants_arrayFieldAccess_update_def
        Users_tenants_tenantFieldAccess_read_def Users_tenants_tenantFieldAccess_update_def
        UsersV0_roles_access_create_def UsersV0_roles_access_update_def
        isSuperAdmin_roles_ok [OF r] n t isSuperAdmin_Users_has_role)
qed

text \<open>
  C9, as the claim states it, fails on malformed user snapshots: the access functions are
  not defined for every input. A user whose \<^verbatim>\<open>roles\<close> is a number makes the role check
  raise a TypeError, and a user whose \<^verbatim>\<open>tenants\<close> is a non-empty string makes the
  resolver raise one.
\<close>

theorem access_raises_counterexample:
  "Users_access_delete example_roles_number = Inl TypeError
   \<and> Tenants_access_read example_roles_number = Inl TypeError
   \<and> Users_access_read example_tenants_string = Inl TypeError
   \<and> Tenants_access_read example_tenants_string = Inl TypeError"
  by (simp add: example_roles_number_def example_tenants_string_def Users_access_delete_def
      Tenants_access_read_def readTenantAccess_def Users_access_read_def tenantScopedAccess_def
      isSuperAdmin_def getTenantIds_def method_includes_def obj_get_def)

text \<open>
  C9, amended. On every user whose \<^verbatim>\<open>roles\<close> and \<^verbatim>\<open>tenants\<close> are each missing, null or
  an array, whatever the entries of \<^verbatim>\<open>tenants\<close> are, every access function returns a
  result and does not raise. When the user is absent, every collection-level access
  function returns \<open>DENY_ALL\<close> and every field-level one returns false.
\<close>

theorem access_total:
  "(conforms user \<longrightarrow>
      (\<forall>p \<in> set collection_access. \<exists>r. p user = Inr r)
      \<and> (\<forall>p \<in> set field_access. \<exists>b. p user = Inr b))
   \<and> (absent user \<longrightarrow>
      (\<forall>p \<in> set collection_access. p user = Inr DENY_ALL)
      \<and> (\<forall>p \<in> set field_access. p user = Inr False))"
  using collection_access_total field_access_total collection_access_absent field_access_absent
  by blast

theorem access_total_witness:
  "conforms example_tenant_admin
   \<and> (\<exists>r. Users_access_read example_tenant_admin = Inr r)
   \<and> (\<exists>r. Tenants_access_read example_tenant_admin = Inr r)
   \<and> (\<exists>b. Users_roles_access_update example_tenant_admin = Inr b)
   \<and> absent JUndefined
   \<and> Users_access_read JUndefined = Inr DENY_ALL
   \<and> Tenants_access_read JUndefined = Inr DENY_ALL
   \<and> Users_access_admin JUndefined = Inr DENY_ALL
   \<and> Users_roles_access_update JUndefined = Inr False"
proof -
  have h1: "conforms example_tenant_admin"
    using example_tenant_admin_shape by simp
  have h2: "absent JUndefined"
    by (simp add: absent_def)
  have m: "Users_access_read \<in> set collection_access"
    "Tenants_access_read \<in> set collection_access"
    "Users_access_admin \<in> set collection_access"
    "Users_roles_access_update \<in> set field_access"
    by (simp_all add: collection_access_def field_access_def)
  note c1 = mp [OF access_total [of example_tenant_admin, THEN conjunct1] h1]
  note c2 = mp [OF access_total [of JUndefined, THEN conjunct2] h2]
  show ?thesis
    using h1 h2 c1 [THEN conjunct1, THEN bspec, OF m(1)] c1 [THEN conjunct1, THEN bspec, OF m(2)]
      c1 [THEN conjunct2, THEN bspec, OF m(4)]
      c2 [THEN conjunct1, THEN bspec, OF m(1)] c2 [THEN conjunct1, THEN bspec, OF m(2)]
      c2 [THEN conjunct1, THEN bspec, OF m(3)] c2 [THEN conjunct2, THEN bspec, OF m(4)]
    by simp
qed

section \<open>The creation hook\<close>

lemma obj_get_obj_set: "obj_get (obj_set k v fs) k' = (if k' = k then v else obj_get fs k')"
  by (induction fs) (auto simp: obj_get_def)

lemma filter_obj_set:
  "\<not> P k \<Longrightarrow> filter (\<lambda>p. P (fst p)) (obj_set k v fs) = filter (\<lambda>p. P (fst p)) fs"
  by (induction fs) auto

lemma other_fields_obj_set:
  "k = ''tenants'' \<or> k = ''roles'' \<Longrightarrow> other_fields (obj_set k v fs) = other_fields fs"
  using filter_obj_set [of "\<lambda>x. x \<noteq> ''tenants'' \<and> x \<noteq> ''roles''" k v fs]
  by (auto simp: other_fields_def)

lemma data_prop_spread: "obj_get (spread data) k = data_prop data k"
  by (cases data) (simp_all add: obj_get_def)

lemma wrap_tenant_fun: "wrap_tenant = (\<lambda>i. JObj [(''tenant'', i)])"
  by (rule ext) (simp add: wrap_tenant_def)

lemma beforeChange_scoped:
  assumes "truthy requester" and "conforms requester" and "\<not> has_role requester ''super-admin''"
  shows "Users_beforeChange data requester ''create'' =
     Inr (Some
       (obj_set ''roles'' (js_coalesce (data_prop data ''roles'') (JArr [JStr ''tenant-admin'']))
         (obj_set ''tenants''
           (JArr (map wrap_tenant (filter truthy (map resolveTenant (memberships requester)))))
           (spread data))))"
proof -
  have s: "isSuperAdmin requester = Inr False"
    using assms by (simp add: conforms_def isSuperAdmin_roles_ok)
  have g: "getTenantIds requester = Inr (filter truthy (map resolveTenant (memberships requester)))"
    using assms by (simp add: conforms_def getTenantIds_tenants_ok)
  show ?thesis
    using assms(1) by (simp add: Users_beforeChange_def s g)
qed

lemma beforeChange_passthrough:
  assumes "absent requester \<or> has_role requester ''super-admin''"
  shows "Users_beforeChange data requester operation = Inr data"
  using assms
  by (auto simp: Users_beforeChange_def absent_not_truthy isSuperAdmin_has_role)

text \<open>
  C2. When an authenticated user of the declared shape who is not a super-admin creates a user, the hook
  returns a payload whose \<^verbatim>\<open>tenants\<close> is the list of the creator's resolved identifiers,
  each wrapped as \<^verbatim>\<open>{ tenant: id }\<close>, whatever the inbound payload held there, and
  whose \<^verbatim>\<open>roles\<close> is the payload's \<^verbatim>\<open>roles\<close> when the payload has one (neither
  undefined nor null) and \<^verbatim>\<open>['tenant-admin']\<close> otherwise. When the requester is absent
  or a super-admin the hook returns the payload as it is.
\<close>

theorem beforeChange_create:
  "(truthy requester \<and> conforms requester \<and> \<not> has_role requester ''super-admin'' \<longrightarrow>
      (\<exists>tids out. getTenantIds requester = Inr tids
         \<and> Users_beforeChange data requester ''create'' = Inr (Some out)
         \<and> obj_get out ''tenants'' = JArr (map (\<lambda>i. JObj [(''tenant'', i)]) tids)
         \<and> obj_get out ''roles'' =
             (if nullish (data_prop data ''roles'') then JArr [JStr ''tenant-admin'']
              else data_prop data ''roles'')))
   \<and> (absent requester \<or> has_role requester ''super-admin'' \<longrightarrow>
        Users_beforeChange data requester operation = Inr data)"
proof -
  have a: "truthy requester \<and> conforms requester \<and> \<not> has_role requester ''super-admin'' \<longrightarrow>
      (\<exists>tids out. getTenantIds requester = Inr tids
         \<and> Users_beforeChange data requester ''create'' = Inr (Some out)
         \<and> obj_get out ''tenants'' = JArr (map (\<lambda>i. JObj [(''tenant'', i)]) tids)
         \<and> obj_get out ''roles'' =
             (if nullish (data_prop data ''roles'') then JArr [JStr ''tenant-admin'']
              else data_prop data ''roles''))"
    by (simp add: beforeChange_scoped conforms_def getTenantIds_tenants_ok obj_get_obj_set
        js_coalesce_def wrap_tenant_fun)
  have b: "absent requester \<or> has_role requester ''super-admin'' \<longrightarrow>
        Users_beforeChange data requester operation = Inr data"
    by (simp add: beforeChange_passthrough)
  show ?thesis
    by (rule conjI [OF a b])
qed

lemma beforeChange_example:
  "Users_beforeChange (Some []) example_tenant_admin ''create''
     = Inr (Some [(''tenants'', JArr [JObj [(''tenant'', JStr ''t1'')], JObj [(''tenant'', JStr ''t2'')]]),
                  (''roles'', JArr [JStr ''tenant-admin''])])"
  by (simp add: beforeChange_scoped example_tenant_admin_shape)
     (simp add: example_tenant_admin_def memberships_def resolveTenant_def obj_get_def
       js_coalesce_def wrap_tenant_def)

lemma beforeChange_example_payload:
  "Users_beforeChange example_payload example_tenant_admin ''create''
     = Inr (Some [(''email'', JStr ''new@example.com''),
                  (''tenants'', JArr [JObj [(''tenant'', JStr ''t1'')], JObj [(''tenant'', JStr ''t2'')]]),
                  (''roles'', JArr [JStr ''tenant-editor''])])"
  by (simp add: beforeChange_scoped example_tenant_admin_shape)
     (simp add: example_tenant_admin_def example_payload_def memberships_def resolveTenant_def
       obj_get_def js_coalesce_def wrap_tenant_def)

theorem beforeChange_create_witness:
  "(truthy example_tenant_admin \<and> conforms example_tenant_admin
      \<and> \<not> has_role example_tenant_admin ''super-admin'')
   \<and> (\<exists>tids out. getTenantIds example_tenant_admin = Inr tids
         \<and> Users_beforeChange example_payload example_tenant_admin ''create'' = Inr (Some out)
         \<and> obj_get out ''tenants'' = JArr (map (\<lambda>i. JObj [(''tenant'', i)]) tids)
         \<and> obj_get out ''roles'' =
             (if nullish (data_prop example_payload ''roles'') then JArr [JStr ''tenant-admin'']
              else data_prop example_payload ''roles''))
   \<and> (absent JNull \<or> has_role JNull ''super-admin'')
   \<and> Users_beforeChange example_payload JNull ''create'' = Inr example_payload
   \<and> (absent example_super_admin \<or> has_role example_super_admin ''super-admin'')
   \<and> Users_beforeChange example_payload example_super_admin ''create'' = Inr example_payload"
proof -
  note h1 = example_tenant_admin_shape
  have h2: "absent JNull \<or> has_role JNull ''super-admin''"
    by (simp add: absent_def)
  have h3: "absent example_super_admin \<or> has_role example_super_admin ''super-admin''"
    by (simp add: example_super_admin_role)
  note c1 = mp [OF beforeChange_create [of example_tenant_admin example_payload "''create''",
        THEN conjunct1] h1]
  note c2 = mp [OF beforeChange_create [of JNull example_payload "''create''", THEN conjunct2] h2]
  note c3 = mp [OF beforeChange_create [of example_super_admin example_payload "''create''",
        THEN conjunct2] h3]
  show ?thesis
    by (rule conjI [OF h1 conjI [OF c1 conjI [OF h2 conjI [OF c2 conjI [OF h3 c3]]]]])
qed

text \<open>
  C10. On a create by an authenticated user of the declared shape who is not a super-admin, the hook leaves
  every field other than \<^verbatim>\<open>tenants\<close> and \<^verbatim>\<open>roles\<close> as it was: reading any other key
  gives the payload's value, and the other properties of the output are those of the
  payload, in the same order. On any other operation the hook returns the payload as it
  is, whoever the requester is.
\<close>

theorem beforeChange_frame:
  "(truthy requester \<and> conforms requester \<and> \<not> has_role requester ''super-admin'' \<longrightarrow>
      (\<exists>out. Users_beforeChange data requester ''create'' = Inr (Some out)
         \<and> (\<forall>k. k \<noteq> ''tenants'' \<and> k \<noteq> ''roles'' \<longrightarrow> obj_get out k = data_prop data k)
         \<and> other_fields out = other_fields (spread data)))
   \<and> (operation \<noteq> ''create'' \<longrightarrow> Users_beforeChange data requester operation = Inr data)"
proof -
  have a: "truthy requester \<and> conforms requester \<and> \<not> has_role requester ''super-admin'' \<longrightarrow>
      (\<exists>out. Users_beforeChange data requester ''create'' = Inr (Some out)
         \<and> (\<forall>k. k \<noteq> ''tenants'' \<and> k \<noteq> ''roles'' \<longrightarrow> obj_get out k = data_prop data k)
         \<and> other_fields out = other_fields (spread data))"
    by (simp add: beforeChange_scoped obj_get_obj_set data_prop_spread other_fields_obj_set)
  have b: "operation \<noteq> ''create'' \<longrightarrow> Users_beforeChange data requester operation = Inr data"
    by (simp add: Users_beforeChange_def)
  show ?thesis
    by (rule conjI [OF a b])
qed

theorem beforeChange_frame_witness:
  "(truthy example_tenant_admin \<and> conforms example_tenant_admin
      \<and> \<not> has_role example_tenant_admin ''super-admin'')
   \<and> (\<exists>out. Users_beforeChange example_payload example_tenant_admin ''create'' = Inr (Some out)
         \<and> (\<forall>k. k \<noteq> ''tenants'' \<and> k \<noteq> ''roles'' \<longrightarrow> obj_get out k = data_prop example_payload k)
         \<and> other_fields out = other_fields (spread example_payload))
   \<and> ''update'' \<noteq> ''create''
   \<and> Users_beforeChange example_payload example_tenant_admin ''update'' = Inr example_payload"
proof -
  note h1 = example_tenant_admin_shape
  have h2: "''update'' \<noteq> ''create''"
    by simp
  note c1 = mp [OF beforeChange_frame [of example_tenant_admin example_payload "''update''",
        THEN conjunct1] h1]
  note c2 = mp [OF beforeChange_frame [of example_tenant_admin example_payload "''update''",
        THEN conjunct2] h2]
  show ?thesis
    by (rule conjI [OF h1 conjI [OF c1 conjI [OF h2 c2]]])
qed

end
